theory Spec2Isabelle
  imports Main
begin

section \<open>Python strings\<close>

text \<open>
  A Python \<open>str\<close> is modelled as a \<open>string\<close> (a list of 8-bit characters).
  \<open>str.lower\<close> maps the ASCII capitals to the small letters; the characters above
  127 are left alone, which changes no lookup below because every key of the
  tables is ASCII.
\<close>

definition lower_char :: "char \<Rightarrow> char" where
  "lower_char c =
     (case map_of (zip ''ABCDEFGHIJKLMNOPQRSTUVWXYZ'' ''abcdefghijklmnopqrstuvwxyz'') c of
        Some d \<Rightarrow> d
      | None \<Rightarrow> c)"

definition lower :: "string \<Rightarrow> string" where
  "lower s = map lower_char s"

text \<open>
  \<open>s.split(sep)\<close> for a one-character separator: the list of the pieces between
  the separators, never empty (\<open>''''.split('.')\<close> is \<open>['''']\<close>).
  The last alternative of the \<open>case\<close> is never taken (see \<open>split_on_nonempty\<close>).
\<close>

fun split_on :: "char \<Rightarrow> string \<Rightarrow> string list" where
  "split_on sep [] = [[]]"
| "split_on sep (x # xs) =
     (if x = sep then [] # split_on sep xs
      else (case split_on sep xs of
              w # ws \<Rightarrow> (x # w) # ws
            | [] \<Rightarrow> [[x]]))"

text \<open>\<open>s.rfind(c)\<close>: the index of the last occurrence, \<open>None\<close> for Python's \<open>-1\<close>.\<close>

fun rfind :: "char \<Rightarrow> string \<Rightarrow> nat option" where
  "rfind c [] = None"
| "rfind c (x # xs) =
     (case rfind c xs of
        Some i \<Rightarrow> Some (Suc i)
      | None \<Rightarrow> (if x = c then Some 0 else None))"

text \<open>\<open>s.lstrip(".")\<close>.\<close>

definition lstrip_dot :: "string \<Rightarrow> string" where
  "lstrip_dot s = dropWhile (\<lambda>c. c = CHR ''.'') s"

text \<open>
  \<open>str.isspace\<close> on the 8-bit range: tab, line feed, vertical tab, form feed,
  carriage return, the separators 28 to 31, the space, and 133 and 160.
  \<open>s.strip()\<close> removes such characters at both ends.
\<close>

definition isspace :: "char \<Rightarrow> bool" where
  "isspace c = ((of_char c :: nat) \<in> {9, 10, 11, 12, 13, 28, 29, 30, 31, 32, 133, 160})"

definition strip :: "string \<Rightarrow> string" where
  "strip s = rev (dropWhile isspace (rev (dropWhile isspace s)))"


section \<open>Paths\<close>

text \<open>
  A \<open>pathlib.Path\<close> is modelled by its directory part and its final component.
  \<open>suffix\<close> and \<open>stem\<close> follow \<open>PurePath.suffix\<close> and \<open>PurePath.stem\<close>: with
  \<open>i = name.rfind('.')\<close>, the suffix is \<open>name[i:]\<close> and the stem \<open>name[:i]\<close> when
  \<open>0 < i < len(name) - 1\<close>, else the suffix is empty and the stem is the name.
\<close>

datatype path = Path (parent: string) (name: string)

definition suffix :: "path \<Rightarrow> string" where
  "suffix p =
     (case rfind CHR ''.'' (name p) of
        None \<Rightarrow> []
      | Some i \<Rightarrow> (if 0 < i \<and> i < length (name p) - 1 then drop i (name p) else []))"

definition stem :: "path \<Rightarrow> string" where
  "stem p =
     (case rfind CHR ''.'' (name p) of
        None \<Rightarrow> name p
      | Some i \<Rightarrow> (if 0 < i \<and> i < length (name p) - 1 then take i (name p) else name p))"


section \<open>MIME Classifier\<close>

text \<open>The table \<open>mime_types\<close> of \<open>rawcod.get_mime_type\<close>, in the order of the source.\<close>

definition mime_types :: "(string \<times> string) list" where
  "mime_types =
     [(''jpg'', ''image/jpeg''),
      (''jpeg'', ''image/jpeg''),
      (''png'', ''image/png''),
      (''bmp'', ''image/bmp''),
      (''gif'', ''image/gif''),
      (''tiff'', ''image/tiff''),
      (''tif'', ''image/tiff''),
      (''webp'', ''image/webp''),
      (''pdf'', ''application/pdf'')]"

text \<open>The table \<open>mime_map\<close> of \<open>process_service.get_mime_type\<close>.\<close>

definition mime_map :: "(string \<times> string) list" where
  "mime_map =
     [(''pdf'', ''application/pdf''),
      (''jpg'', ''image/jpeg''),
      (''jpeg'', ''image/jpeg''),
      (''png'', ''image/png''),
      (''tif'', ''image/tiff''),
      (''tiff'', ''image/tiff''),
      (''bmp'', ''image/bmp''),
      (''gif'', ''image/gif''),
      (''webp'', ''image/webp'')]"

text \<open>\<open>d.get(key, default)\<close> on a dict literal.\<close>

definition dict_get :: "('k \<times> 'v) list \<Rightarrow> 'k \<Rightarrow> 'v \<Rightarrow> 'v" where
  "dict_get d k dflt = (case map_of d k of Some v \<Rightarrow> v | None \<Rightarrow> dflt)"

text \<open>
  \<open>rawcod.get_mime_type(file_path)\<close>:
  \<open>ext = file_path.lower().split('.')[-1]\<close>, then the lookup.
\<close>

definition get_mime_type_rawcod :: "string \<Rightarrow> string" where
  "get_mime_type_rawcod file_path =
     (let ext = last (split_on CHR ''.'' (lower file_path))
      in dict_get mime_types ext ''application/octet-stream'')"

text \<open>
  \<open>process_service.get_mime_type(path)\<close>:
  \<open>ext = path.suffix.lower().lstrip(".")\<close>, then the lookup.
\<close>

definition get_mime_type_service :: "path \<Rightarrow> string" where
  "get_mime_type_service p =
     (let ext = lstrip_dot (lower (suffix p))
      in dict_get mime_map ext ''application/octet-stream'')"


section \<open>Response Normalizer\<close>

text \<open>
  A named entity of the remote document: its type, its plain text and its nested
  entities (\<open>entity.type_\<close> as \<open>etype\<close>, \<open>entity.mention_text\<close>, \<open>entity.properties\<close>).
\<close>

datatype entity = Entity (etype: string) (mention_text: string) (properties: "entity list")

text \<open>The dict \<open>entity_details\<close>, with its keys \<open>"value"\<close> and \<open>"properties"\<close>.\<close>

record entity_details =
  d_value :: string
  d_properties :: "string \<rightharpoonup> string"

text \<open>
  The dict \<open>structured_invoice\<close>. The key \<open>"transaction_id"\<close> is absent until it is
  added after the loop, hence the option.
\<close>

record structured_invoice =
  header :: "string \<rightharpoonup> entity_details"
  line_items :: "entity_details list"
  footer :: "string \<rightharpoonup> entity_details"
  transaction_id :: "string option"

definition header_fields :: "string list" where
  "header_fields =
     [''invoice_id'', ''invoice_date'', ''supplier_name'', ''supplier_address'',
      ''supplier_tax_id'', ''supplier_iban'', ''receiver_name'', ''receiver_address'',
      ''receiver_tax_id'', ''invoice_type'']"

definition footer_fields :: "string list" where
  "footer_fields = [''net_amount'', ''total_tax_amount'', ''vat'', ''total_amount'']"

text \<open>\<open>child_type = child.type_.split('/')[-1]\<close>.\<close>

definition child_type :: "entity \<Rightarrow> string" where
  "child_type child = last (split_on CHR ''/'' (etype child))"

text \<open>
  The inner loop over \<open>entity.properties\<close>:
  \<open>entity_details["properties"][child_type] = child.mention_text\<close>.
\<close>

definition add_child :: "entity \<Rightarrow> (string \<rightharpoonup> string) \<Rightarrow> (string \<rightharpoonup> string)" where
  "add_child child props = props(child_type child \<mapsto> mention_text child)"

definition make_details :: "entity \<Rightarrow> entity_details" where
  "make_details e =
     \<lparr>d_value = mention_text e,
      d_properties = fold add_child (properties e) Map.empty\<rparr>"

text \<open>The body of the outer loop: the four branches on \<open>entity_type\<close>.\<close>

definition place_entity :: "entity \<Rightarrow> structured_invoice \<Rightarrow> structured_invoice" where
  "place_entity e invoice =
     (let entity_type = etype e; det = make_details e in
      if entity_type \<in> set header_fields then
        invoice\<lparr>header := (header invoice)(entity_type \<mapsto> det)\<rparr>
      else if entity_type = ''line_item'' then
        invoice\<lparr>line_items := line_items invoice @ [det]\<rparr>
      else if entity_type \<in> set footer_fields then
        invoice\<lparr>footer := (footer invoice)(entity_type \<mapsto> det)\<rparr>
      else
        invoice\<lparr>header := (header invoice)(entity_type \<mapsto> det)\<rparr>)"

definition empty_invoice :: structured_invoice where
  "empty_invoice =
     \<lparr>header = Map.empty, line_items = [], footer = Map.empty, transaction_id = None\<rparr>"

text \<open>
  Step 5 of \<open>rawcod.main\<close>: the loop over \<open>document.entities\<close>, then the
  transaction identifier. \<open>uuid\<close> is the value \<open>str(uuid.uuid4())\<close> drew in this run.
\<close>

definition classify :: "entity list \<Rightarrow> structured_invoice" where
  "classify entities = fold place_entity entities empty_invoice"

definition normalize :: "entity list \<Rightarrow> string \<Rightarrow> structured_invoice" where
  "normalize entities uuid = (classify entities)\<lparr>transaction_id := Some uuid\<rparr>"

text \<open>The section an entity is sent to, as the branches of the loop decide it.\<close>

datatype section_name = Header | LineItems | Footer

definition target :: "string \<Rightarrow> section_name" where
  "target entity_type =
     (if entity_type \<in> set header_fields then Header
      else if entity_type = ''line_item'' then LineItems
      else if entity_type \<in> set footer_fields then Footer
      else Header)"

text \<open>The last entity of a sequence with a given type (the one written last).\<close>

definition last_of_type :: "string \<Rightarrow> entity list \<Rightarrow> entity option" where
  "last_of_type k es = find (\<lambda>e. etype e = k) (rev es)"

definition last_child :: "string \<Rightarrow> entity list \<Rightarrow> entity option" where
  "last_child k cs = find (\<lambda>c. child_type c = k) (rev cs)"

text \<open>An entity with the nested entities of its children removed.\<close>

definition prune :: "entity \<Rightarrow> entity" where
  "prune e =
     Entity (etype e) (mention_text e)
       (map (\<lambda>c. Entity (etype c) (mention_text c) []) (properties e))"


section \<open>Configuration Resolver\<close>

text \<open>
  Exceptions are values; all of them are subclasses of \<open>Exception\<close>, so
  \<open>except Exception\<close> catches every one. \<open>JSONDecodeError\<close> is the one
  \<open>load_project_id\<close> catches; \<open>RuntimeError\<close> and \<open>ValueError\<close> carry the first line
  of their message.
\<close>

datatype exn =
    RuntimeError string
  | ValueError string
  | JSONDecodeError
  | AttributeError
  | ImportError
  | EOFError
  | OSError
  | UnicodeDecodeError
  | OtherException string

text \<open>
  What \<open>json.load\<close> returns (numbers restricted to integers). An object keeps its
  members in document order; a repeated key takes its last value.
\<close>

datatype json =
    JNull
  | JBool bool
  | JInt int
  | JStr string
  | JArr "json list"
  | JObj "(string \<times> json) list"

fun truthy :: "json \<Rightarrow> bool" where
  "truthy JNull = False"
| "truthy (JBool b) = b"
| "truthy (JInt n) = (n \<noteq> 0)"
| "truthy (JStr s) = (s \<noteq> [])"
| "truthy (JArr xs) = (xs \<noteq> [])"
| "truthy (JObj kvs) = (kvs \<noteq> [])"

text \<open>
  The file \<open>docai_processor_id.txt\<close>: missing, present with a \<open>read_text\<close> that raises
  (\<open>OSError\<close> for a directory or a refused access, \<open>UnicodeDecodeError\<close> for bytes
  that are not UTF-8), or present with its text.
\<close>

datatype file_state = Absent | Unreadable exn | Text string

datatype document = Document (entities: "entity list")

text \<open>
  Everything a run reads from outside: the environment, the file system, the
  command line, the standard input, the remote processor and the random
  identifier. The remote call and the reads are given per file path;
  \<open>write_output\<close> is the outcome of creating the output directory and writing
  the output file for that input (its name is made of the input name and, in
  \<open>rawcod.py\<close>, the date). \<open>input_dir\<close> is \<open>None\<close> when the input directory does not
  exist, else its entries with the answer of \<open>is_file()\<close>.
\<close>

record world =
  environ :: "string \<rightharpoonup> string"
  path_exists :: "string \<Rightarrow> bool"
  load_json :: "string \<Rightarrow> exn + json"
  processor_id_file :: file_state
  import_documentai :: "exn option"
  argv :: "string list"
  stdin_input :: "exn + string"
  read_bytes :: "string \<Rightarrow> exn + string"
  client_init :: "exn option"
  process_document :: "string \<Rightarrow> json \<times> string \<times> string \<Rightarrow> string \<Rightarrow> exn + document"
  uuid4 :: string
  write_output :: "string \<Rightarrow> exn option"
  input_dir :: "(string \<times> bool) list option"

text \<open>
  \<open>validate_credentials\<close>, \<open>load_project_id\<close> and \<open>load_processor_id\<close> have the same
  text in both scripts, up to the tag of the log lines.
\<close>

definition validate_credentials :: "world \<Rightarrow> exn + string" where
  "validate_credentials w =
     (case environ w ''GOOGLE_APPLICATION_CREDENTIALS'' of
        None \<Rightarrow> Inl (RuntimeError ''GOOGLE_APPLICATION_CREDENTIALS not set.'')
      | Some creds_path \<Rightarrow>
          if creds_path = [] then Inl (RuntimeError ''GOOGLE_APPLICATION_CREDENTIALS not set.'')
          else if \<not> path_exists w creds_path then
            Inl (RuntimeError ''Google OCR credentials not found.'')
          else Inr creds_path)"

definition load_project_id :: "world \<Rightarrow> string \<Rightarrow> exn + json" where
  "load_project_id w creds_path =
     (case load_json w creds_path of
        Inl JSONDecodeError \<Rightarrow> Inl (RuntimeError ''Invalid JSON in credentials file'')
      | Inl e \<Rightarrow> Inl e
      | Inr (JObj members) \<Rightarrow>
          (case map_of (rev members) ''project_id'' of
             None \<Rightarrow> Inl (ValueError ''project_id not found in credentials file'')
           | Some project_id \<Rightarrow>
               if \<not> truthy project_id then
                 Inl (ValueError ''project_id not found in credentials file'')
               else Inr project_id)
      | Inr _ \<Rightarrow> Inl AttributeError)"

definition missing_processor_id :: exn where
  "missing_processor_id = RuntimeError ''Processor ID not found.''"

definition read_processor_file :: "world \<Rightarrow> exn + string" where
  "read_processor_file w =
     (case processor_id_file w of
        Absent \<Rightarrow> Inl missing_processor_id
      | Unreadable e \<Rightarrow> Inl e
      | Text content \<Rightarrow>
          (let proc_id = strip content in
           if proc_id \<noteq> [] then Inr proc_id else Inl missing_processor_id))"

definition load_processor_id :: "world \<Rightarrow> exn + string" where
  "load_processor_id w =
     (case environ w ''DOCAI_PROCESSOR_ID'' of
        None \<Rightarrow> read_processor_file w
      | Some env_id \<Rightarrow>
          if env_id \<noteq> [] then Inr (strip env_id) else read_processor_file w)"

text \<open>\<open>os.getenv("DOCAI_LOCATION", "us")\<close>.\<close>

definition get_location :: "world \<Rightarrow> string" where
  "get_location w = (case environ w ''DOCAI_LOCATION'' of None \<Rightarrow> ''us'' | Some l \<Rightarrow> l)"

text \<open>The four statements inside the first \<open>try\<close> of \<open>main\<close>, in order.\<close>

definition resolve_config :: "world \<Rightarrow> exn + (json \<times> string \<times> string)" where
  "resolve_config w =
     (case validate_credentials w of
        Inl e \<Rightarrow> Inl e
      | Inr creds_path \<Rightarrow>
          (case load_project_id w creds_path of
             Inl e \<Rightarrow> Inl e
           | Inr project_id \<Rightarrow>
               (case load_processor_id w of
                  Inl e \<Rightarrow> Inl e
                | Inr processor_id \<Rightarrow> Inr (project_id, get_location w, processor_id))))"


section \<open>Single-file driver (rawcod.py)\<close>

text \<open>\<open>s.strip('"')\<close>.\<close>

definition strip_quotes :: "string \<Rightarrow> string" where
  "strip_quotes s =
     rev (dropWhile (\<lambda>c. c = CHR 0x22) (rev (dropWhile (\<lambda>c. c = CHR 0x22) s)))"

text \<open>Step 3: the path from the command line, else from the prompt.\<close>

definition get_input_file :: "world \<Rightarrow> exn + string" where
  "get_input_file w =
     (if length (argv w) > 1 then Inr (argv w ! 1)
      else (case stdin_input w of
              Inl e \<Rightarrow> Inl e
            | Inr line \<Rightarrow> Inr (strip_quotes (strip line))))"

text \<open>Step 4: the statements inside \<open>try ... except Exception\<close>.\<close>

definition call_processor ::
  "world \<Rightarrow> json \<times> string \<times> string \<Rightarrow> string \<Rightarrow> string \<Rightarrow> exn + document" where
  "call_processor w processor file_path mime_type =
     (case client_init w of
        Some e \<Rightarrow> Inl e
      | None \<Rightarrow>
          (case read_bytes w file_path of
             Inl e \<Rightarrow> Inl e
           | Inr file_content \<Rightarrow> process_document w file_path processor mime_type))"

text \<open>
  \<open>rawcod.main\<close>. \<open>Inl e\<close>: the exception \<open>e\<close> leaves \<open>main\<close> uncaught.
  \<open>Inr (code, written)\<close>: \<open>main\<close> returns \<open>code\<close>, having written \<open>written\<close>.
\<close>

definition main_rawcod :: "world \<Rightarrow> exn + (nat \<times> structured_invoice option)" where
  "main_rawcod w =
     (case resolve_config w of
        Inl (RuntimeError msg) \<Rightarrow> Inr (1, None)
      | Inl e \<Rightarrow> Inl e
      | Inr processor \<Rightarrow>
          (case import_documentai w of
             Some ImportError \<Rightarrow> Inr (1, None)
           | Some e \<Rightarrow> Inl e
           | None \<Rightarrow>
               (case get_input_file w of
                  Inl e \<Rightarrow> Inl e
                | Inr file_path \<Rightarrow>
                    if \<not> path_exists w file_path then Inr (1, None)
                    else
                      (let mime_type = get_mime_type_rawcod file_path in
                       if mime_type = ''application/octet-stream'' then Inr (1, None)
                       else
                         (case call_processor w processor file_path mime_type of
                            Inl e \<Rightarrow> Inr (1, None)
                          | Inr doc \<Rightarrow>
                              (let structured = normalize (entities doc) (uuid4 w) in
                               case write_output w file_path of
                                 Some e \<Rightarrow> Inl e
                               | None \<Rightarrow> Inr (0, Some structured)))))))"


section \<open>Batch driver (process_service.py)\<close>

text \<open>
  What a run does to the outside, each event carrying the name of the input file:
  its bytes were submitted to the processor, its output file was written.
\<close>

datatype event = Submitted string | Written string

text \<open>\<open>process_file\<close>: the events it caused, and its return value or exception.\<close>

definition process_file ::
  "world \<Rightarrow> json \<times> string \<times> string \<Rightarrow> path \<Rightarrow> event list \<times> (exn + string)" where
  "process_file w processor p =
     (case read_bytes w (name p) of
        Inl e \<Rightarrow> ([], Inl e)
      | Inr content \<Rightarrow>
          (case process_document w (name p) processor (get_mime_type_service p) of
             Inl e \<Rightarrow> ([Submitted (name p)], Inl e)
           | Inr doc \<Rightarrow>
               (case write_output w (name p) of
                  Some e \<Rightarrow> ([Submitted (name p)], Inl e)
                | None \<Rightarrow>
                    ([Submitted (name p), Written (name p)],
                     Inr (stem p @ ''_processed.json'')))))"

text \<open>
  The loop \<open>for path in files\<close> with its \<open>try ... except Exception: return 1\<close>,
  followed by \<open>return 0\<close>.
\<close>

fun process_files ::
  "world \<Rightarrow> json \<times> string \<times> string \<Rightarrow> path list \<Rightarrow> event list \<times> nat" where
  "process_files w processor [] = ([], 0)"
| "process_files w processor (p # ps) =
     (case process_file w processor p of
        (evs, Inl e) \<Rightarrow> (evs, 1)
      | (evs, Inr out_path) \<Rightarrow>
          (case process_files w processor ps of
             (rest, code) \<Rightarrow> (evs @ rest, code)))"

text \<open>The list comprehension over \<open>INPUT_DIR.iterdir()\<close>.\<close>

definition supported_files :: "(string \<times> bool) list \<Rightarrow> path list" where
  "supported_files dir_entries =
     map (\<lambda>(n, is_file). Path ''input'' n)
       (filter (\<lambda>(n, is_file). is_file \<and>
                  get_mime_type_service (Path ''input'' n) \<noteq> ''application/octet-stream'')
          dir_entries)"

text \<open>\<open>process_service.main\<close>, with the events of the run.\<close>

definition main_service :: "world \<Rightarrow> event list \<times> (exn + nat)" where
  "main_service w =
     (case resolve_config w of
        Inl (RuntimeError msg) \<Rightarrow> ([], Inr 1)
      | Inl e \<Rightarrow> ([], Inl e)
      | Inr processor \<Rightarrow>
          (case client_init w of
             Some e \<Rightarrow> ([], Inl e)
           | None \<Rightarrow>
               (case input_dir w of
                  None \<Rightarrow> ([], Inr 1)
                | Some dir_entries \<Rightarrow>
                    (let files = supported_files dir_entries in
                     if files = [] then ([], Inr 1)
                     else (case process_files w processor files of
                             (evs, code) \<Rightarrow> (evs, Inr code))))))"


section \<open>Example runs\<close>

definition quiet_world :: world where
  "quiet_world =
     \<lparr>environ = Map.empty,
      path_exists = (\<lambda>p. False),
      load_json = (\<lambda>p. Inl OSError),
      processor_id_file = Absent,
      import_documentai = None,
      argv = [''rawcod.py''],
      stdin_input = Inl EOFError,
      read_bytes = (\<lambda>p. Inl OSError),
      client_init = None,
      process_document = (\<lambda>p r m. Inl (OtherException ''unavailable'')),
      uuid4 = ''00000000-0000-4000-8000-000000000000'',
      write_output = (\<lambda>p. None),
      input_dir = None\<rparr>"

text \<open>
  The credentials variable names an existing file whose content is the JSON
  object \<open>{}\<close>; the processor identifier is in the environment.
\<close>

definition world_no_project_id :: world where
  "world_no_project_id =
     quiet_world
       \<lparr>environ := [''GOOGLE_APPLICATION_CREDENTIALS'' \<mapsto> ''docai.json'',
                    ''DOCAI_PROCESSOR_ID'' \<mapsto> ''abc123''],
        path_exists := (\<lambda>p. p = ''docai.json''),
        load_json := (\<lambda>p. Inr (JObj []))\<rparr>"

text \<open>The processor variable holds an identifier between two spaces.\<close>

definition world_padded_env :: world where
  "world_padded_env = quiet_world\<lparr>environ := [''DOCAI_PROCESSOR_ID'' \<mapsto> '' abc123 '']\<rparr>"


text \<open>No variable set, but the fallback file holds an identifier and a line end.\<close>

definition world_file_id :: world where
  "world_file_id = quiet_world\<lparr>processor_id_file := Text (''xyz789'' @ [CHR 0x0A])\<rparr>"

text \<open>The variable is set to the empty string and the fallback file is blank.\<close>

definition world_blank_file :: world where
  "world_blank_file =
     quiet_world
       \<lparr>environ := [''DOCAI_PROCESSOR_ID'' \<mapsto> []],
        processor_id_file := Text (''  '' @ [CHR 0x0A])\<rparr>"

text \<open>
  A batch run with a complete configuration over a directory of five entries,
  where the remote call fails for \<open>b.png\<close>.
\<close>

definition world_batch :: world where
  "world_batch =
     quiet_world
       \<lparr>environ := [''GOOGLE_APPLICATION_CREDENTIALS'' \<mapsto> ''docai.json'',
                    ''DOCAI_PROCESSOR_ID'' \<mapsto> ''abc123''],
        path_exists := (\<lambda>p. p = ''docai.json''),
        load_json := (\<lambda>p. Inr (JObj [(''project_id'', JStr ''demo'')])),
        read_bytes := (\<lambda>p. Inr ''bytes''),
        process_document :=
          (\<lambda>p r m. if p = ''b.png'' then Inl (OtherException ''quota exceeded'')
                    else Inr (Document [])),
        input_dir := Some [(''a.pdf'', True), (''notes.txt'', True), (''b.png'', True),
                           (''old.pdf'', False), (''c.pdf'', True)]\<rparr>"

text \<open>
  The document of the end-to-end example of the specification, followed by an
  entity of a type in neither table.
\<close>

definition example_entities :: "entity list" where
  "example_entities =
     [Entity ''invoice_id'' ''INV-1'' [],
      Entity ''line_item'' ''Widget'' [Entity ''line_item/qty'' ''3'' []],
      Entity ''total_amount'' ''42.00'' [],
      Entity ''currency'' ''EUR'' []]"

text \<open>Two entities of the same header type.\<close>

definition duplicate_entities :: "entity list" where
  "duplicate_entities = [Entity ''invoice_id'' ''INV-1'' [], Entity ''invoice_id'' ''INV-2'' []]"

text \<open>A line item whose first child has a child of its own.\<close>

definition example_line_item :: entity where
  "example_line_item =
     Entity ''line_item'' ''Widget''
       [Entity ''line_item/qty'' ''3'' [Entity ''unit'' ''pcs'' []],
        Entity ''amount'' ''12.00'' []]"


text \<open>A line item with two children of the same type.\<close>

definition shared_key_item :: entity where
  "shared_key_item =
     Entity ''line_item'' ''Widget blue''
       [Entity ''line_item/description'' ''Widget'' [],
        Entity ''line_item/description'' ''blue'' []]"


section \<open>Facts about the string functions\<close>

lemma split_on_nonempty: "split_on sep s \<noteq> []"
  by (induction s) (auto split: list.splits)

lemma length_split_on:
  "length (split_on sep s) = Suc (length (filter (\<lambda>c. c = sep) s))"
  by (induction s) (auto split: list.splits)

lemma split_on_absent: "sep \<notin> set s \<Longrightarrow> split_on sep s = [s]"
  by (induction s) auto

lemma split_on_present_tail:
  assumes "sep \<in> set s" and "split_on sep s = w # ws"
  shows "ws \<noteq> []"
proof -
  have "filter (\<lambda>c. c = sep) s \<noteq> []"
    using assms(1) by (simp add: filter_empty_conv)
  then have "2 \<le> length (split_on sep s)"
    by (cases "filter (\<lambda>c. c = sep) s") (simp_all add: length_split_on)
  then show ?thesis using assms(2) by auto
qed

lemma last_split_on_Cons:
  "last (split_on sep (x # xs)) =
     (if sep \<in> set (x # xs) then last (split_on sep xs) else x # xs)"
proof (cases "x = sep")
  case True
  then show ?thesis by (simp add: split_on_nonempty)
next
  case False
  show ?thesis
  proof (cases "sep \<in> set xs")
    case True
    obtain w ws where sp: "split_on sep xs = w # ws"
      using split_on_nonempty [of sep xs] by (cases "split_on sep xs") auto
    have "ws \<noteq> []" using split_on_present_tail [OF True sp] .
    then show ?thesis using sp True False by simp
  next
    case no: False
    then show ?thesis using False by (simp add: split_on_absent)
  qed
qed


section \<open>Facts about the normalizer\<close>

lemma target_line_item: "target ''line_item'' = LineItems"
  by (simp add: target_def header_fields_def)

lemma target_LineItems_iff: "target k = LineItems \<longleftrightarrow> k = ''line_item''"
  by (auto simp: target_def header_fields_def)

lemma target_Footer_iff: "target k = Footer \<longleftrightarrow> k \<in> set footer_fields"
  by (auto simp: target_def header_fields_def footer_fields_def)

lemma target_Header_iff:
  "target k = Header \<longleftrightarrow>
     k \<in> set header_fields \<or> (k \<noteq> ''line_item'' \<and> k \<notin> set footer_fields)"
  by (auto simp: target_def)

lemma header_place:
  "header (place_entity e i) =
     (if target (etype e) = Header then (header i)(etype e \<mapsto> make_details e) else header i)"
  by (simp add: place_entity_def target_def Let_def)

lemma footer_place:
  "footer (place_entity e i) =
     (if target (etype e) = Footer then (footer i)(etype e \<mapsto> make_details e) else footer i)"
  by (simp add: place_entity_def target_def Let_def)

lemma line_items_place:
  "line_items (place_entity e i) =
     (if target (etype e) = LineItems then line_items i @ [make_details e] else line_items i)"
  by (simp add: place_entity_def target_def Let_def)

lemma transaction_id_place: "transaction_id (place_entity e i) = transaction_id i"
  by (simp add: place_entity_def Let_def)

lemma classify_Nil: "classify [] = empty_invoice"
  by (simp add: classify_def)

lemma classify_snoc: "classify (es @ [e]) = place_entity e (classify es)"
  by (simp add: classify_def)

lemma last_of_type_Nil: "last_of_type k [] = None"
  by (simp add: last_of_type_def)

lemma last_of_type_snoc:
  "last_of_type k (es @ [e]) = (if etype e = k then Some e else last_of_type k es)"
  by (simp add: last_of_type_def)

lemma header_classify:
  "header (classify es) k =
     (if target k = Header then map_option make_details (last_of_type k es) else None)"
proof (induction es rule: rev_induct)
  case Nil
  show ?case by (simp add: classify_Nil empty_invoice_def last_of_type_Nil)
next
  case (snoc e es)
  show ?case using snoc.IH
    by (simp add: classify_snoc header_place last_of_type_snoc)
qed

lemma footer_classify:
  "footer (classify es) k =
     (if target k = Footer then map_option make_details (last_of_type k es) else None)"
proof (induction es rule: rev_induct)
  case Nil
  show ?case by (simp add: classify_Nil empty_invoice_def last_of_type_Nil)
next
  case (snoc e es)
  show ?case using snoc.IH
    by (simp add: classify_snoc footer_place last_of_type_snoc)
qed

lemma line_items_classify:
  "line_items (classify es) = map make_details (filter (\<lambda>e. etype e = ''line_item'') es)"
proof (induction es rule: rev_induct)
  case Nil
  show ?case by (simp add: classify_Nil empty_invoice_def)
next
  case (snoc e es)
  show ?case using snoc.IH
    by (simp add: classify_snoc line_items_place target_LineItems_iff)
qed

lemma transaction_id_classify: "transaction_id (classify es) = None"
  by (induction es rule: rev_induct)
     (simp_all add: classify_Nil empty_invoice_def classify_snoc transaction_id_place)

lemma last_of_type_None_iff: "last_of_type k es = None \<longleftrightarrow> k \<notin> etype ` set es"
  by (auto simp: last_of_type_def find_None_iff)

lemma last_of_type_SomeD:
  "last_of_type k es = Some e \<Longrightarrow> e \<in> set es \<and> etype e = k"
  by (induction es rule: rev_induct)
     (auto simp: last_of_type_Nil last_of_type_snoc split: if_splits)

lemma last_of_type_append_fresh:
  "\<forall>e' \<in> set ys. etype e' \<noteq> etype e \<Longrightarrow> last_of_type (etype e) (xs @ e # ys) = Some e"
  by (induction ys rule: rev_induct) (simp_all add: last_of_type_def)


lemma last_child_Nil: "last_child k [] = None"
  by (simp add: last_child_def)

lemma last_child_snoc:
  "last_child k (cs @ [c]) = (if child_type c = k then Some c else last_child k cs)"
  by (simp add: last_child_def)

lemma fold_add_child:
  "fold add_child cs Map.empty k = map_option mention_text (last_child k cs)"
  by (induction cs rule: rev_induct)
     (simp_all add: last_child_Nil last_child_snoc add_child_def)

lemma last_child_None_iff: "last_child k cs = None \<longleftrightarrow> k \<notin> child_type ` set cs"
  by (induction cs rule: rev_induct) (auto simp: last_child_Nil last_child_snoc)

lemma dom_fold_add_child: "dom (fold add_child cs Map.empty) = child_type ` set cs"
proof -
  have "k \<in> dom (fold add_child cs Map.empty) \<longleftrightarrow> k \<in> child_type ` set cs" for k
  proof -
    have "k \<in> dom (fold add_child cs Map.empty) \<longleftrightarrow> last_child k cs \<noteq> None"
      by (simp add: domIff fold_add_child)
    then show ?thesis by (simp add: last_child_None_iff)
  qed
  then show ?thesis by blast
qed

lemma child_type_pruned:
  "child_type (Entity (etype c) (mention_text c) []) = child_type c"
  by (simp add: child_type_def)

lemma fold_add_child_pruned:
  "fold add_child (map (\<lambda>c. Entity (etype c) (mention_text c) []) cs) m = fold add_child cs m"
  by (induction cs arbitrary: m) (simp_all add: add_child_def child_type_def)

lemma last_split_on_segment:
  "sep \<notin> set seg \<Longrightarrow> last (split_on sep (pre @ sep # seg)) = seg"
  by (induction pre) (simp_all add: last_split_on_Cons split_on_absent del: split_on.simps)

text \<open>
  Claim C6 as stated fails: of two children of the same type, the first does not
  have its text in the properties map.
\<close>

theorem properties_shared_key_overwritten:
  "properties shared_key_item =
     [Entity ''line_item/description'' ''Widget'' [],
      Entity ''line_item/description'' ''blue'' []]
   \<and> child_type (Entity ''line_item/description'' ''Widget'' []) = ''description''
   \<and> d_properties (make_details shared_key_item) ''description'' = Some ''blue''
   \<and> d_properties (make_details shared_key_item) ''description''
       \<noteq> Some (mention_text (Entity ''line_item/description'' ''Widget'' []))"
  by (simp add: shared_key_item_def make_details_def add_child_def child_type_def)

text \<open>
  Claim C6, amended. The properties map of an entity is built from its direct
  children only: its keys are exactly the trailing segments of the children's
  types (the part after the last \<open>/\<close>, the whole type when there is none), the
  value under a key is the plain text of the last child with that key, so a child
  whose key no later sibling shares is stored with its own text, and removing the
  children of the children changes nothing.
\<close>

theorem properties_flattened_one_level:
  "d_value (make_details e) = mention_text e
   \<and> dom (d_properties (make_details e)) = child_type ` set (properties e)
   \<and> d_properties (make_details e) k = map_option mention_text (last_child k (properties e))
   \<and> (\<forall>cs c cs'. properties e = cs @ c # cs' \<and> (\<forall>c' \<in> set cs'. child_type c' \<noteq> child_type c)
        \<longrightarrow> d_properties (make_details e) (child_type c) = Some (mention_text c))
   \<and> (\<forall>c pre seg. etype c = pre @ CHR ''/'' # seg \<and> CHR ''/'' \<notin> set seg \<longrightarrow> child_type c = seg)
   \<and> (\<forall>c. CHR ''/'' \<notin> set (etype c) \<longrightarrow> child_type c = etype c)
   \<and> make_details (prune e) = make_details e"
proof -
  have fresh: "last_child (child_type c) (cs @ c # cs') = Some c"
    if "\<forall>c' \<in> set cs'. child_type c' \<noteq> child_type c" for cs c cs'
    using that by (induction cs' rule: rev_induct) (simp_all add: last_child_def)
  have seg: "child_type c = seg"
    if "etype c = pre @ CHR ''/'' # seg" "CHR ''/'' \<notin> set seg" for c pre seg
    using that by (simp add: child_type_def last_split_on_segment)
  have whole: "child_type c = etype c" if "CHR ''/'' \<notin> set (etype c)" for c
    using that by (simp add: child_type_def split_on_absent)
  have pr: "make_details (prune e) = make_details e"
    by (simp add: make_details_def prune_def fold_add_child_pruned)
  have v: "d_value (make_details e) = mention_text e"
    by (simp add: make_details_def)
  have d: "dom (d_properties (make_details e)) = child_type ` set (properties e)"
    by (simp add: make_details_def dom_fold_add_child)
  have l: "d_properties (make_details e) k = map_option mention_text (last_child k (properties e))"
    for k
    by (simp add: make_details_def fold_add_child)
  have f: "d_properties (make_details e) (child_type c) = Some (mention_text c)"
    if "properties e = cs @ c # cs'" "\<forall>c' \<in> set cs'. child_type c' \<noteq> child_type c"
    for cs c cs'
    using fresh [OF that(2), of cs] l [of "child_type c"] that(1) by simp
  show ?thesis
  proof (intro conjI allI impI)
    show "d_value (make_details e) = mention_text e" by (rule v)
    show "dom (d_properties (make_details e)) = child_type ` set (properties e)" by (rule d)
    show "d_properties (make_details e) k = map_option mention_text (last_child k (properties e))"
      by (rule l)
    show "make_details (prune e) = make_details e" by (rule pr)
  next
    fix cs c cs'
    assume "properties e = cs @ c # cs' \<and> (\<forall>c' \<in> set cs'. child_type c' \<noteq> child_type c)"
    then show "d_properties (make_details e) (child_type c) = Some (mention_text c)"
      using f by blast
  next
    fix c :: entity and pre seg
    assume "etype c = pre @ CHR ''/'' # seg \<and> CHR ''/'' \<notin> set seg"
    then show "child_type c = seg" using seg by blast
  next
    fix c :: entity
    assume "CHR ''/'' \<notin> set (etype c)"
    then show "child_type c = etype c" by (rule whole)
  qed
qed

theorem properties_flattened_one_level_witness:
  "d_properties (make_details example_line_item) ''qty'' = Some ''3''
   \<and> d_properties (make_details example_line_item) ''amount'' = Some ''12.00''
   \<and> child_type (Entity ''line_item/qty'' ''3'' [Entity ''unit'' ''pcs'' []]) = ''qty''
   \<and> child_type (Entity ''amount'' ''12.00'' []) = ''amount''"
proof -
  let ?c1 = "Entity ''line_item/qty'' ''3'' [Entity ''unit'' ''pcs'' []]"
  let ?c2 = "Entity ''amount'' ''12.00'' []"
  note t = properties_flattened_one_level [where e = example_line_item and k = "''qty''"]
  have s1: "etype ?c1 = ''line_item'' @ CHR ''/'' # ''qty'' \<and> CHR ''/'' \<notin> set ''qty''"
    by simp
  have k1: "child_type ?c1 = ''qty''" using t s1 by blast
  have s2: "CHR ''/'' \<notin> set (etype ?c2)" by simp
  have k2: "child_type ?c2 = etype ?c2" using t s2 by blast
  have p1: "properties example_line_item = [] @ ?c1 # [?c2]
            \<and> (\<forall>c' \<in> set [?c2]. child_type c' \<noteq> child_type ?c1)"
    using k1 k2 by (simp add: example_line_item_def)
  have v1: "d_properties (make_details example_line_item) (child_type ?c1)
              = Some (mention_text ?c1)"
    using t p1 by blast
  have p2: "properties example_line_item = [?c1] @ ?c2 # []
            \<and> (\<forall>c' \<in> set []. child_type c' \<noteq> child_type ?c2)"
    by (simp add: example_line_item_def)
  have v2: "d_properties (make_details example_line_item) (child_type ?c2)
              = Some (mention_text ?c2)"
    using t p2 by blast
  show ?thesis using k1 k2 v1 v2 by simp
qed


lemma header_normalize: "header (normalize es u) = header (classify es)"
  by (simp add: normalize_def)
lemma footer_normalize: "footer (normalize es u) = footer (classify es)"
  by (simp add: normalize_def)
lemma line_items_normalize: "line_items (normalize es u) = line_items (classify es)"
  by (simp add: normalize_def)
lemma transaction_id_normalize: "transaction_id (normalize es u) = Some u"
  by (simp add: normalize_def)

lemma header_dom_iff:
  "k \<in> dom (header (classify es)) \<longleftrightarrow> target k = Header \<and> k \<in> etype ` set es"
  using last_of_type_None_iff [of k es] by (auto simp: domIff header_classify)

lemma footer_dom_iff:
  "k \<in> dom (footer (classify es)) \<longleftrightarrow> target k = Footer \<and> k \<in> etype ` set es"
  using last_of_type_None_iff [of k es] by (auto simp: domIff footer_classify)

lemma header_SomeD:
  "header (classify es) k = Some d \<Longrightarrow> \<exists>e \<in> set es. etype e = k \<and> d = make_details e"
  using last_of_type_SomeD [of k es]
  by (auto simp: header_classify split: if_splits)

lemma footer_SomeD:
  "footer (classify es) k = Some d \<Longrightarrow> \<exists>e \<in> set es. etype e = k \<and> d = make_details e"
  using last_of_type_SomeD [of k es]
  by (auto simp: footer_classify split: if_splits)

text \<open>
  Claim C1. In the result of the normalizer, \<open>line_items\<close> holds the details of
  the \<open>line_item\<close> entities in input order; the type of every entity named in
  the header table, and of every entity of a type in no table, is a key of the
  header map and not of the footer map; the type of every entity named in the
  footer table is a key of the footer map and not of the header map;
  \<open>line_item\<close> is a key of neither map; every value of a map is the details of
  an input entity of that type; and right after an entity is processed the map
  it is sent to holds its details under its type.
\<close>

theorem normalizer_routes_by_type:
  "line_items (normalize es uuid) = map make_details (filter (\<lambda>e. etype e = ''line_item'') es)
   \<and> (\<forall>e \<in> set es. etype e \<in> set header_fields \<longrightarrow>
         etype e \<in> dom (header (normalize es uuid)) \<and> etype e \<notin> dom (footer (normalize es uuid)))
   \<and> (\<forall>e \<in> set es. etype e \<in> set footer_fields \<longrightarrow>
         etype e \<in> dom (footer (normalize es uuid)) \<and> etype e \<notin> dom (header (normalize es uuid)))
   \<and> (\<forall>e \<in> set es. etype e \<notin> set header_fields \<and> etype e \<noteq> ''line_item''
           \<and> etype e \<notin> set footer_fields \<longrightarrow>
         etype e \<in> dom (header (normalize es uuid)) \<and> etype e \<notin> dom (footer (normalize es uuid)))
   \<and> ''line_item'' \<notin> dom (header (normalize es uuid))
   \<and> ''line_item'' \<notin> dom (footer (normalize es uuid))
   \<and> (\<forall>k d. header (normalize es uuid) k = Some d \<longrightarrow>
         (\<exists>e \<in> set es. etype e = k \<and> d = make_details e))
   \<and> (\<forall>k d. footer (normalize es uuid) k = Some d \<longrightarrow>
         (\<exists>e \<in> set es. etype e = k \<and> d = make_details e))
   \<and> (\<forall>xs e. target (etype e) = Header \<longrightarrow>
         header (normalize (xs @ [e]) uuid) (etype e) = Some (make_details e))
   \<and> (\<forall>xs e. target (etype e) = Footer \<longrightarrow>
         footer (normalize (xs @ [e]) uuid) (etype e) = Some (make_details e))"
proof (intro conjI ballI allI impI)
  show "line_items (normalize es uuid) =
          map make_details (filter (\<lambda>e. etype e = ''line_item'') es)"
    by (simp add: line_items_normalize line_items_classify)
next
  fix e assume "e \<in> set es" "etype e \<in> set header_fields"
  then have "target (etype e) = Header" "etype e \<in> etype ` set es"
    by (simp_all add: target_Header_iff)
  then show "etype e \<in> dom (header (normalize es uuid))"
    and "etype e \<notin> dom (footer (normalize es uuid))"
    by (simp_all add: header_normalize footer_normalize header_dom_iff footer_dom_iff)
next
  fix e assume "e \<in> set es" "etype e \<in> set footer_fields"
  then have "target (etype e) = Footer" "etype e \<in> etype ` set es"
    by (simp_all add: target_Footer_iff)
  then show "etype e \<in> dom (footer (normalize es uuid))"
    and "etype e \<notin> dom (header (normalize es uuid))"
    by (simp_all add: header_normalize footer_normalize header_dom_iff footer_dom_iff)
next
  fix e assume "e \<in> set es"
    and "etype e \<notin> set header_fields \<and> etype e \<noteq> ''line_item'' \<and> etype e \<notin> set footer_fields"
  then have "target (etype e) = Header" "etype e \<in> etype ` set es"
    by (simp_all add: target_Header_iff)
  then show "etype e \<in> dom (header (normalize es uuid))"
    and "etype e \<notin> dom (footer (normalize es uuid))"
    by (simp_all add: header_normalize footer_normalize header_dom_iff footer_dom_iff)
next
  show "''line_item'' \<notin> dom (header (normalize es uuid))"
    by (simp add: header_normalize header_dom_iff target_line_item)
  show "''line_item'' \<notin> dom (footer (normalize es uuid))"
    by (simp add: footer_normalize footer_dom_iff target_line_item)
next
  fix k d assume "header (normalize es uuid) k = Some d"
  then show "\<exists>e \<in> set es. etype e = k \<and> d = make_details e"
    by (simp add: header_normalize header_SomeD)
next
  fix k d assume "footer (normalize es uuid) k = Some d"
  then show "\<exists>e \<in> set es. etype e = k \<and> d = make_details e"
    by (simp add: footer_normalize footer_SomeD)
next
  fix xs e assume "target (etype e) = Header"
  then show "header (normalize (xs @ [e]) uuid) (etype e) = Some (make_details e)"
    by (simp add: header_normalize header_classify last_of_type_snoc)
next
  fix xs e assume "target (etype e) = Footer"
  then show "footer (normalize (xs @ [e]) uuid) (etype e) = Some (make_details e)"
    by (simp add: footer_normalize footer_classify last_of_type_snoc)
qed

theorem normalizer_routes_by_type_witness:
  "line_items (normalize example_entities ''6f1c2a9e-0001'')
     = [make_details (Entity ''line_item'' ''Widget'' [Entity ''line_item/qty'' ''3'' []])]
   \<and> ''invoice_id'' \<in> dom (header (normalize example_entities ''6f1c2a9e-0001''))
   \<and> ''total_amount'' \<in> dom (footer (normalize example_entities ''6f1c2a9e-0001''))
   \<and> ''currency'' \<in> dom (header (normalize example_entities ''6f1c2a9e-0001''))
   \<and> (\<exists>e \<in> set example_entities. etype e = ''invoice_id''
         \<and> make_details (Entity ''invoice_id'' ''INV-1'' []) = make_details e)
   \<and> (\<exists>e \<in> set example_entities. etype e = ''total_amount''
         \<and> make_details (Entity ''total_amount'' ''42.00'' []) = make_details e)"
proof -
  let ?u = "''6f1c2a9e-0001''"
  let ?i = "Entity ''invoice_id'' ''INV-1'' []"
  let ?l = "Entity ''line_item'' ''Widget'' [Entity ''line_item/qty'' ''3'' []]"
  let ?t = "Entity ''total_amount'' ''42.00'' []"
  let ?c = "Entity ''currency'' ''EUR'' []"
  note t = normalizer_routes_by_type [where es = example_entities and uuid = ?u]
  have li: "line_items (normalize example_entities ?u) = [make_details ?l]"
    using t by (simp add: example_entities_def)
  have mi: "?i \<in> set example_entities" and mt: "?t \<in> set example_entities"
    and mc: "?c \<in> set example_entities"
    by (simp_all add: example_entities_def)
  have hi: "etype ?i \<in> set header_fields" by (simp add: header_fields_def)
  have ht: "etype ?t \<in> set footer_fields" by (simp add: footer_fields_def)
  have hc: "etype ?c \<notin> set header_fields \<and> etype ?c \<noteq> ''line_item''
            \<and> etype ?c \<notin> set footer_fields"
    by (simp add: header_fields_def footer_fields_def)
  have a: "etype ?i \<in> dom (header (normalize example_entities ?u))"
    using t mi hi by blast
  have b: "etype ?t \<in> dom (footer (normalize example_entities ?u))"
    using t mt ht by blast
  have c: "etype ?c \<in> dom (header (normalize example_entities ?u))"
    using t mc hc by blast
  have ti: "target (etype ?i) = Header" by (simp add: target_def header_fields_def)
  have tt: "target (etype ?t) = Footer"
    by (simp add: target_def header_fields_def footer_fields_def)
  have vi: "header (normalize example_entities ?u) ''invoice_id'' = Some (make_details ?i)"
    by (simp add: normalize_def classify_def place_entity_def empty_invoice_def
        example_entities_def header_fields_def footer_fields_def Let_def)
  have vt: "footer (normalize example_entities ?u) ''total_amount'' = Some (make_details ?t)"
    by (simp add: normalize_def classify_def place_entity_def empty_invoice_def
        example_entities_def header_fields_def footer_fields_def Let_def)
  have d: "\<exists>e \<in> set example_entities. etype e = ''invoice_id''
         \<and> make_details ?i = make_details e"
    using t vi by blast
  have e: "\<exists>e \<in> set example_entities. etype e = ''total_amount''
         \<and> make_details ?t = make_details e"
    using t vt by blast
  have f: "header (normalize ([] @ [?i]) ?u) (etype ?i) = Some (make_details ?i)"
    using t ti by blast
  have g: "footer (normalize ([] @ [?t]) ?u) (etype ?t) = Some (make_details ?t)"
    using t tt by blast
  show ?thesis using li a b c d e by simp
qed


text \<open>
  Claim C5. Under each key, the header map and the footer map hold the details
  of the last input entity of that type: of two entities with the same type the
  later one is in the result, as it is, whatever the earlier one was.
\<close>

theorem normalizer_last_write_wins:
  "header (normalize es uuid) k =
     (if target k = Header then map_option make_details (last_of_type k es) else None)
   \<and> footer (normalize es uuid) k =
     (if target k = Footer then map_option make_details (last_of_type k es) else None)
   \<and> (\<forall>xs e1 ys e2 zs.
         es = xs @ e1 # ys @ e2 # zs \<and> etype e1 = etype e2
           \<and> (\<forall>e \<in> set zs. etype e \<noteq> etype e2) \<longrightarrow>
         (target (etype e2) = Header \<longrightarrow>
            header (normalize es uuid) (etype e2) = Some (make_details e2))
         \<and> (target (etype e2) = Footer \<longrightarrow>
            footer (normalize es uuid) (etype e2) = Some (make_details e2)))"
proof (intro conjI allI impI)
  show "header (normalize es uuid) k =
     (if target k = Header then map_option make_details (last_of_type k es) else None)"
    by (simp add: header_normalize header_classify)
  show "footer (normalize es uuid) k =
     (if target k = Footer then map_option make_details (last_of_type k es) else None)"
    by (simp add: footer_normalize footer_classify)
next
  fix xs e1 ys e2 zs
  assume a: "es = xs @ e1 # ys @ e2 # zs \<and> etype e1 = etype e2
           \<and> (\<forall>e \<in> set zs. etype e \<noteq> etype e2)"
  then have "last_of_type (etype e2) ((xs @ e1 # ys) @ e2 # zs) = Some e2"
    by (intro last_of_type_append_fresh) simp
  then have l: "last_of_type (etype e2) es = Some e2" using a by simp
  show "header (normalize es uuid) (etype e2) = Some (make_details e2)"
    if "target (etype e2) = Header"
    using that l by (simp add: header_normalize header_classify)
  show "footer (normalize es uuid) (etype e2) = Some (make_details e2)"
    if "target (etype e2) = Footer"
    using that l by (simp add: footer_normalize footer_classify)
qed

theorem normalizer_last_write_wins_witness:
  "header (normalize duplicate_entities ''6f1c2a9e-0001'') ''invoice_id''
     = Some (make_details (Entity ''invoice_id'' ''INV-2'' []))
   \<and> footer (normalize [Entity ''vat'' ''19'' [], Entity ''vat'' ''7'' []] ''6f1c2a9e-0001'') ''vat''
     = Some (make_details (Entity ''vat'' ''7'' []))"
proof -
  let ?e1 = "Entity ''invoice_id'' ''INV-1'' []" and ?e2 = "Entity ''invoice_id'' ''INV-2'' []"
  let ?f1 = "Entity ''vat'' ''19'' []" and ?f2 = "Entity ''vat'' ''7'' []"
  have d: "duplicate_entities = [] @ ?e1 # [] @ ?e2 # [] \<and> etype ?e1 = etype ?e2
           \<and> (\<forall>e \<in> set []. etype e \<noteq> etype ?e2)"
    by (simp add: duplicate_entities_def)
  have th: "target (etype ?e2) = Header"
    by (simp add: target_def header_fields_def)
  have a: "header (normalize duplicate_entities ''6f1c2a9e-0001'') (etype ?e2)
             = Some (make_details ?e2)"
    using normalizer_last_write_wins
      [where es = duplicate_entities and uuid = "''6f1c2a9e-0001''" and k = "''invoice_id''"]
      d th
    by blast
  have f: "[?f1, ?f2] = [] @ ?f1 # [] @ ?f2 # [] \<and> etype ?f1 = etype ?f2
           \<and> (\<forall>e \<in> set []. etype e \<noteq> etype ?f2)"
    by simp
  have tf: "target (etype ?f2) = Footer"
    by (simp add: target_def header_fields_def footer_fields_def)
  have b: "footer (normalize [?f1, ?f2] ''6f1c2a9e-0001'') (etype ?f2) = Some (make_details ?f2)"
    using normalizer_last_write_wins
      [where es = "[?f1, ?f2]" and uuid = "''6f1c2a9e-0001''" and k = "''vat''"]
      f tf
    by blast
  show ?thesis using a b by simp
qed


text \<open>
  The three sections of the result do not depend on the identifier drawn for the
  run, and the identifier attached to the result does not depend on the entities.
\<close>

lemma normalize_sections_and_identifier:
  "header (normalize es uuid1) = header (normalize es uuid2)
   \<and> line_items (normalize es uuid1) = line_items (normalize es uuid2)
   \<and> footer (normalize es uuid1) = footer (normalize es uuid2)
   \<and> transaction_id (normalize es uuid1) = Some uuid1
   \<and> transaction_id (normalize es' uuid1) = transaction_id (normalize es uuid1)"
  by (simp add: normalize_def)


text \<open>
  Claim C10 as stated fails: of two entities of the same header type only the
  second is in the result, the first is in none of the three sections.
\<close>

theorem normalizer_drops_overwritten_entity:
  "header (normalize duplicate_entities ''6f1c2a9e-0001'')
     = [''invoice_id'' \<mapsto> make_details (Entity ''invoice_id'' ''INV-2'' [])]
   \<and> line_items (normalize duplicate_entities ''6f1c2a9e-0001'') = []
   \<and> footer (normalize duplicate_entities ''6f1c2a9e-0001'') = Map.empty
   \<and> make_details (Entity ''invoice_id'' ''INV-1'' [])
       \<noteq> make_details (Entity ''invoice_id'' ''INV-2'' [])"
  by (simp add: normalize_def classify_def place_entity_def empty_invoice_def
      duplicate_entities_def header_fields_def make_details_def Let_def)

text \<open>
  Claim C10, amended. An entity whose type no later entity repeats is found in
  the map its type selects, under its type, and not in the other map; every
  \<open>line_item\<close> entity is found in \<open>line_items\<close>, whose length is the number of
  such entities, and in neither map; no key belongs to both maps; and the result
  carries the transaction identifier next to the three sections.
\<close>

theorem normalizer_sections_partition:
  "(\<forall>xs e ys. es = xs @ e # ys \<and> (\<forall>e' \<in> set ys. etype e' \<noteq> etype e) \<longrightarrow>
      (target (etype e) = Header \<longrightarrow>
         header (normalize es uuid) (etype e) = Some (make_details e)
         \<and> footer (normalize es uuid) (etype e) = None)
      \<and> (target (etype e) = Footer \<longrightarrow>
         footer (normalize es uuid) (etype e) = Some (make_details e)
         \<and> header (normalize es uuid) (etype e) = None))
   \<and> (\<forall>e \<in> set es. target (etype e) = LineItems \<longrightarrow>
         make_details e \<in> set (line_items (normalize es uuid))
         \<and> header (normalize es uuid) (etype e) = None
         \<and> footer (normalize es uuid) (etype e) = None)
   \<and> length (line_items (normalize es uuid)) =
       length (filter (\<lambda>e. target (etype e) = LineItems) es)
   \<and> dom (header (normalize es uuid)) \<inter> dom (footer (normalize es uuid)) = {}
   \<and> transaction_id (normalize es uuid) = Some uuid"
proof (intro conjI allI ballI impI)
  fix xs e ys
  assume a: "es = xs @ e # ys \<and> (\<forall>e' \<in> set ys. etype e' \<noteq> etype e)"
  then have l: "last_of_type (etype e) es = Some e"
    using last_of_type_append_fresh [of ys e xs] by simp
  show "header (normalize es uuid) (etype e) = Some (make_details e)"
    and "footer (normalize es uuid) (etype e) = None"
    if "target (etype e) = Header"
    using that l by (simp_all add: header_normalize footer_normalize header_classify footer_classify)
  show "footer (normalize es uuid) (etype e) = Some (make_details e)"
    and "header (normalize es uuid) (etype e) = None"
    if "target (etype e) = Footer"
    using that l by (simp_all add: header_normalize footer_normalize header_classify footer_classify)
next
  fix e assume e: "e \<in> set es" and t: "target (etype e) = LineItems"
  then have "etype e = ''line_item''" by (simp add: target_LineItems_iff)
  then show "make_details e \<in> set (line_items (normalize es uuid))"
    using e by (simp add: line_items_normalize line_items_classify)
  show "header (normalize es uuid) (etype e) = None"
    using t by (simp add: header_normalize header_classify)
  show "footer (normalize es uuid) (etype e) = None"
    using t by (simp add: footer_normalize footer_classify)
next
  show "length (line_items (normalize es uuid)) =
       length (filter (\<lambda>e. target (etype e) = LineItems) es)"
    by (simp add: line_items_normalize line_items_classify target_LineItems_iff)
  show "dom (header (normalize es uuid)) \<inter> dom (footer (normalize es uuid)) = {}"
    by (auto simp: header_normalize footer_normalize header_classify footer_classify
          split: if_splits)
  show "transaction_id (normalize es uuid) = Some uuid"
    by (rule transaction_id_normalize)
qed

theorem normalizer_sections_partition_witness:
  "header (normalize example_entities ''6f1c2a9e-0001'') ''invoice_id''
     = Some (make_details (Entity ''invoice_id'' ''INV-1'' []))
   \<and> footer (normalize example_entities ''6f1c2a9e-0001'') ''invoice_id'' = None
   \<and> footer (normalize example_entities ''6f1c2a9e-0001'') ''total_amount''
     = Some (make_details (Entity ''total_amount'' ''42.00'' []))
   \<and> header (normalize example_entities ''6f1c2a9e-0001'') ''total_amount'' = None
   \<and> make_details (Entity ''line_item'' ''Widget'' [Entity ''line_item/qty'' ''3'' []])
       \<in> set (line_items (normalize example_entities ''6f1c2a9e-0001''))
   \<and> header (normalize example_entities ''6f1c2a9e-0001'') ''line_item'' = None
   \<and> footer (normalize example_entities ''6f1c2a9e-0001'') ''line_item'' = None"
proof -
  let ?u = "''6f1c2a9e-0001''"
  let ?i = "Entity ''invoice_id'' ''INV-1'' []"
  let ?l = "Entity ''line_item'' ''Widget'' [Entity ''line_item/qty'' ''3'' []]"
  let ?t = "Entity ''total_amount'' ''42.00'' []"
  let ?c = "Entity ''currency'' ''EUR'' []"
  note t = normalizer_sections_partition [where es = example_entities and uuid = ?u]
  have si: "example_entities = [] @ ?i # [?l, ?t, ?c]
            \<and> (\<forall>e' \<in> set [?l, ?t, ?c]. etype e' \<noteq> etype ?i)"
    by (simp add: example_entities_def)
  have ti: "target (etype ?i) = Header" by (simp add: target_def header_fields_def)
  have a: "header (normalize example_entities ?u) (etype ?i) = Some (make_details ?i)
         \<and> footer (normalize example_entities ?u) (etype ?i) = None"
    using t si ti by blast
  have st: "example_entities = [?i, ?l] @ ?t # [?c]
            \<and> (\<forall>e' \<in> set [?c]. etype e' \<noteq> etype ?t)"
    by (simp add: example_entities_def)
  have tt: "target (etype ?t) = Footer"
    by (simp add: target_def header_fields_def footer_fields_def)
  have b: "footer (normalize example_entities ?u) (etype ?t) = Some (make_details ?t)
         \<and> header (normalize example_entities ?u) (etype ?t) = None"
    using t st tt by blast
  have ml: "?l \<in> set example_entities" by (simp add: example_entities_def)
  have tl: "target (etype ?l) = LineItems" by (simp add: target_def header_fields_def)
  have c: "make_details ?l \<in> set (line_items (normalize example_entities ?u))
         \<and> header (normalize example_entities ?u) (etype ?l) = None
         \<and> footer (normalize example_entities ?u) (etype ?l) = None"
    using t ml tl by blast
  show ?thesis using a b c by simp
qed



section \<open>The MIME Classifier in the two scripts\<close>

lemma lower_char_dot: "lower_char c = CHR ''.'' \<longleftrightarrow> c = CHR ''.''"
  by (auto simp: lower_char_def split: option.splits if_splits)

lemma dot_in_lower: "CHR ''.'' \<in> set (lower s) \<longleftrightarrow> CHR ''.'' \<in> set s"
proof -
  have "CHR ''.'' \<in> lower_char ` set s \<longleftrightarrow> CHR ''.'' \<in> set s"
    using lower_char_dot by (metis image_iff)
  then show ?thesis by (simp add: lower_def)
qed

lemma lower_segment: "lower (base @ CHR ''.'' # ext) = lower base @ CHR ''.'' # lower ext"
  by (simp add: lower_def lower_char_def)

lemma rfind_absent: "c \<notin> set s \<Longrightarrow> rfind c s = None"
  by (induction s) auto

lemma rfind_segment: "c \<notin> set seg \<Longrightarrow> rfind c (pre @ c # seg) = Some (length pre)"
  by (induction pre) (simp_all add: rfind_absent)

lemma tables_agree: "dict_get mime_types k d = dict_get mime_map k d"
  by (simp add: dict_get_def mime_types_def mime_map_def)

lemma get_mime_type_rawcod_extension:
  assumes "CHR ''.'' \<notin> set ext"
  shows "get_mime_type_rawcod (base @ CHR ''.'' # ext) =
           dict_get mime_types (lower ext) ''application/octet-stream''"
proof -
  have "CHR ''.'' \<notin> set (lower ext)" using assms by (simp add: dot_in_lower)
  then have "last (split_on CHR ''.'' (lower base @ CHR ''.'' # lower ext)) = lower ext"
    by (rule last_split_on_segment)
  then show ?thesis by (simp add: get_mime_type_rawcod_def lower_segment)
qed

lemma get_mime_type_service_extension:
  assumes "base \<noteq> []" and "ext \<noteq> []" and "CHR ''.'' \<notin> set ext"
  shows "get_mime_type_service (Path dir (base @ CHR ''.'' # ext)) =
           dict_get mime_map (lower ext) ''application/octet-stream''"
proof -
  have "suffix (Path dir (base @ CHR ''.'' # ext)) = CHR ''.'' # ext"
    using assms by (simp add: suffix_def rfind_segment)
  moreover have "lstrip_dot (CHR ''.'' # lower ext) = lower ext"
  proof -
    obtain x xs where e: "ext = x # xs" using assms(2) by (cases ext) auto
    then have "x \<noteq> CHR ''.''" using assms(3) by auto
    then have "lower_char x \<noteq> CHR ''.''" by (simp add: lower_char_dot)
    then show ?thesis using e by (simp add: lstrip_dot_def lower_def)
  qed
  ultimately show ?thesis
    by (simp add: get_mime_type_service_def lower_def lower_char_def)
qed

lemma get_mime_type_scripts_agree_on_extension:
  assumes "base \<noteq> []" and "ext \<noteq> []" and "CHR ''.'' \<notin> set ext"
  shows "get_mime_type_rawcod (base @ CHR ''.'' # ext) =
           get_mime_type_service (Path dir (base @ CHR ''.'' # ext))"
  using assms
  by (simp add: get_mime_type_rawcod_extension get_mime_type_service_extension tables_agree)

text \<open>
  Claim C2. A file named \<open>pdf\<close> has no extension, and the classifier is to answer
  \<open>application/octet-stream\<close> for it. \<open>rawcod.get_mime_type\<close> takes the whole name
  for the extension (\<open>'pdf'.split('.')\<close> is \<open>['pdf']\<close>) and answers
  \<open>application/pdf\<close>; \<open>process_service.get_mime_type\<close> gives the sentinel.
\<close>

theorem get_mime_type_rawcod_bare_name:
  "get_mime_type_rawcod ''pdf'' = ''application/pdf''
   \<and> CHR ''.'' \<notin> set ''pdf''
   \<and> get_mime_type_service (Path ''input'' ''pdf'') = ''application/octet-stream''"
  by (simp add: get_mime_type_rawcod_def get_mime_type_service_def lower_def lower_char_def
      suffix_def lstrip_dot_def dict_get_def mime_types_def mime_map_def)

text \<open>
  Claim C9. The two classifiers are to agree on every file name; on the name
  \<open>pdf\<close> they do not.
\<close>

theorem get_mime_type_scripts_disagree:
  "get_mime_type_rawcod ''pdf'' \<noteq> get_mime_type_service (Path ''input'' ''pdf'')"
  by (simp add: get_mime_type_rawcod_def get_mime_type_service_def lower_def lower_char_def
      suffix_def lstrip_dot_def dict_get_def mime_types_def mime_map_def)


section \<open>Errors of the configuration step\<close>

text \<open>
  Claim C3. Every error of a run is to end in a logged message and the exit code
  1. With a credentials file that parses and has no \<open>project_id\<close>,
  \<open>load_project_id\<close> raises \<open>ValueError\<close>, \<open>main\<close> catches \<open>RuntimeError\<close> only, and
  the exception leaves \<open>main\<close> in both scripts.
\<close>

theorem main_missing_project_id_uncaught:
  "main_rawcod world_no_project_id =
     Inl (ValueError ''project_id not found in credentials file'')
   \<and> main_service world_no_project_id =
     ([], Inl (ValueError ''project_id not found in credentials file''))"
  by (simp add: main_rawcod_def main_service_def resolve_config_def validate_credentials_def
      load_project_id_def world_no_project_id_def quiet_world_def)


section \<open>Processor identifier\<close>

lemma strip_Nil: "strip [] = []"
  by (simp add: strip_def)

lemma read_processor_file_missing_if:
  "processor_id_file w = Absent
     \<or> (\<exists>content. processor_id_file w = Text content \<and> strip content = [])
   \<Longrightarrow> read_processor_file w = Inl missing_processor_id"
  by (auto simp: read_processor_file_def Let_def)

lemma read_processor_file_missing_only_if:
  "read_processor_file w = Inl missing_processor_id
   \<Longrightarrow> processor_id_file w = Text content \<Longrightarrow> strip content = []"
  by (auto simp: read_processor_file_def Let_def split: if_splits)

text \<open>
  Claim C4 as stated fails: the value of the variable is not returned as it is
  set, it is returned trimmed.
\<close>

theorem load_processor_id_env_not_verbatim:
  "environ world_padded_env ''DOCAI_PROCESSOR_ID'' = Some '' abc123 ''
   \<and> load_processor_id world_padded_env = Inr ''abc123''
   \<and> load_processor_id world_padded_env \<noteq> Inr '' abc123 ''"
  by (simp add: load_processor_id_def world_padded_env_def quiet_world_def strip_def isspace_def)

text \<open>
  Claim C4, amended. When the variable \<open>DOCAI_PROCESSOR_ID\<close> is set and its
  trimmed value is not empty, \<open>load_processor_id\<close> returns that trimmed value.
  When the variable is unset or empty, it returns the trimmed content of the
  fallback file if that is not empty, and raises the missing-processor-id error
  if the file is missing or blank. When it raises that error, neither the
  variable nor the fallback file holds a value that is non-empty once trimmed.
\<close>

theorem load_processor_id_resolution:
  "(\<forall>v. environ w ''DOCAI_PROCESSOR_ID'' = Some v \<and> strip v \<noteq> [] \<longrightarrow>
       load_processor_id w = Inr (strip v))
   \<and> (environ w ''DOCAI_PROCESSOR_ID'' = None \<or> environ w ''DOCAI_PROCESSOR_ID'' = Some [] \<longrightarrow>
        (\<forall>content. processor_id_file w = Text content \<and> strip content \<noteq> [] \<longrightarrow>
           load_processor_id w = Inr (strip content))
        \<and> (processor_id_file w = Absent
             \<or> (\<exists>content. processor_id_file w = Text content \<and> strip content = []) \<longrightarrow>
           load_processor_id w = Inl missing_processor_id))
   \<and> (load_processor_id w = Inl missing_processor_id \<longrightarrow>
        (\<forall>v. environ w ''DOCAI_PROCESSOR_ID'' = Some v \<longrightarrow> strip v = [])
        \<and> (\<forall>content. processor_id_file w = Text content \<longrightarrow> strip content = []))"
proof (intro conjI allI impI)
  fix v assume "environ w ''DOCAI_PROCESSOR_ID'' = Some v \<and> strip v \<noteq> []"
  then show "load_processor_id w = Inr (strip v)"
    by (auto simp: load_processor_id_def strip_Nil)
next
  fix content
  assume e: "environ w ''DOCAI_PROCESSOR_ID'' = None \<or> environ w ''DOCAI_PROCESSOR_ID'' = Some []"
    and f: "processor_id_file w = Text content \<and> strip content \<noteq> []"
  have "load_processor_id w = read_processor_file w"
    using e by (auto simp: load_processor_id_def)
  then show "load_processor_id w = Inr (strip content)"
    using f by (simp add: read_processor_file_def Let_def)
next
  assume e: "environ w ''DOCAI_PROCESSOR_ID'' = None \<or> environ w ''DOCAI_PROCESSOR_ID'' = Some []"
    and f: "processor_id_file w = Absent
             \<or> (\<exists>content. processor_id_file w = Text content \<and> strip content = [])"
  have "load_processor_id w = read_processor_file w"
    using e by (auto simp: load_processor_id_def)
  then show "load_processor_id w = Inl missing_processor_id"
    using f by (simp add: read_processor_file_missing_if)
next
  fix v
  assume m: "load_processor_id w = Inl missing_processor_id"
    and s: "environ w ''DOCAI_PROCESSOR_ID'' = Some v"
  have "v = []"
    using m s by (auto simp: load_processor_id_def split: if_splits)
  then show "strip v = []" by (simp add: strip_Nil)
next
  fix content
  assume m: "load_processor_id w = Inl missing_processor_id"
    and t: "processor_id_file w = Text content"
  have "environ w ''DOCAI_PROCESSOR_ID'' = None \<or> environ w ''DOCAI_PROCESSOR_ID'' = Some []"
    using m by (auto simp: load_processor_id_def split: option.splits if_splits)
  then have "load_processor_id w = read_processor_file w"
    by (auto simp: load_processor_id_def)
  then have "read_processor_file w = Inl missing_processor_id"
    using m by simp
  then show "strip content = []"
    using t by (rule read_processor_file_missing_only_if)
qed

theorem load_processor_id_resolution_witness:
  "load_processor_id world_padded_env = Inr ''abc123''
   \<and> load_processor_id world_file_id = Inr ''xyz789''
   \<and> load_processor_id quiet_world = Inl missing_processor_id
   \<and> load_processor_id world_blank_file = Inl missing_processor_id
   \<and> strip (''  '' @ [CHR 0x0A]) = []"
proof -
  have e1: "environ world_padded_env ''DOCAI_PROCESSOR_ID'' = Some '' abc123 ''
            \<and> strip '' abc123 '' \<noteq> []"
    by (simp add: world_padded_env_def quiet_world_def strip_def isspace_def)
  have s1: "strip '' abc123 '' = ''abc123''"
    by (simp add: strip_def isspace_def)
  have a: "load_processor_id world_padded_env = Inr ''abc123''"
    using load_processor_id_resolution [of world_padded_env] e1 s1 by metis
  have e2: "environ world_file_id ''DOCAI_PROCESSOR_ID'' = None"
    by (simp add: world_file_id_def quiet_world_def)
  have s2: "strip (''xyz789'' @ [CHR 0x0A]) = ''xyz789''"
    by (simp add: strip_def isspace_def)
  have f2: "processor_id_file world_file_id = Text (''xyz789'' @ [CHR 0x0A])
            \<and> strip (''xyz789'' @ [CHR 0x0A]) \<noteq> []"
    using s2 by (simp add: world_file_id_def quiet_world_def)
  have b: "load_processor_id world_file_id = Inr ''xyz789''"
    using load_processor_id_resolution [of world_file_id] e2 f2 s2 by metis
  have e3: "environ quiet_world ''DOCAI_PROCESSOR_ID'' = None"
    by (simp add: quiet_world_def)
  have f3: "processor_id_file quiet_world = Absent"
    by (simp add: quiet_world_def)
  have c: "load_processor_id quiet_world = Inl missing_processor_id"
    using load_processor_id_resolution [of quiet_world] e3 f3 by blast
  have e4: "environ world_blank_file ''DOCAI_PROCESSOR_ID'' = Some []"
    by (simp add: world_blank_file_def quiet_world_def)
  have f4: "processor_id_file world_blank_file = Text (''  '' @ [CHR 0x0A])"
    by (simp add: world_blank_file_def quiet_world_def)
  have s4: "strip (''  '' @ [CHR 0x0A]) = []"
    by (simp add: strip_def isspace_def)
  have d: "load_processor_id world_blank_file = Inl missing_processor_id"
    using load_processor_id_resolution [of world_blank_file] e4 f4 s4 by blast
  have g: "strip (''  '' @ [CHR 0x0A]) = []"
    using load_processor_id_resolution [of world_blank_file] d f4 by blast
  show ?thesis using a b c d g by simp
qed


section \<open>Batch driver: the first failure ends the run\<close>

lemma process_file_events:
  "set (fst (process_file w pr q)) \<subseteq> {Submitted (name q), Written (name q)}"
  by (auto simp: process_file_def split: sum.splits option.splits)

lemma process_files_fail_fast:
  assumes "\<forall>q \<in> set done. \<exists>out. snd (process_file w pr q) = Inr out"
    and "snd (process_file w pr p) = Inl e"
  shows "process_files w pr (done @ p # later) =
           (concat (map (\<lambda>q. fst (process_file w pr q)) done) @ fst (process_file w pr p), 1)"
  using assms
proof (induction "done")
  case Nil
  then show ?case by (cases "process_file w pr p") simp
next
  case (Cons q qs)
  then obtain out where "snd (process_file w pr q) = Inr out" by auto
  then obtain evs where "process_file w pr q = (evs, Inr out)"
    by (cases "process_file w pr q") simp
  then show ?case using Cons by simp
qed

lemma concat_events:
  "ev \<in> set (concat (map (\<lambda>q. fst (process_file w pr q)) qs)) \<Longrightarrow>
     \<exists>q \<in> set qs. ev = Submitted (name q) \<or> ev = Written (name q)"
  using process_file_events by fastforce

text \<open>
  Claim C8. With a resolved configuration, when the files before \<open>p\<close> in the
  enumeration are processed and the processing of \<open>p\<close> raises, the run returns 1
  and its events are those of the files before \<open>p\<close> and of \<open>p\<close> itself: whatever
  the later files are, none of them is submitted or written.
\<close>

theorem batch_fail_fast:
  assumes "resolve_config w = Inr processor"
    and "client_init w = None"
    and "input_dir w = Some dir_entries"
    and "supported_files dir_entries = done @ p # later"
    and "\<forall>q \<in> set done. \<exists>out. snd (process_file w processor q) = Inr out"
    and "snd (process_file w processor p) = Inl e"
  shows "main_service w =
           (concat (map (\<lambda>q. fst (process_file w processor q)) done)
              @ fst (process_file w processor p), Inr 1)
         \<and> process_files w processor (done @ p # later) =
           (concat (map (\<lambda>q. fst (process_file w processor q)) done)
              @ fst (process_file w processor p), 1)
         \<and> (\<forall>q \<in> set later. name q \<notin> name ` set (done @ [p]) \<longrightarrow>
               Submitted (name q) \<notin> set (fst (main_service w))
               \<and> Written (name q) \<notin> set (fst (main_service w)))"
proof -
  let ?evs = "concat (map (\<lambda>q. fst (process_file w processor q)) done)
              @ fst (process_file w processor p)"
  have loop: "process_files w processor (done @ p # later) = (?evs, 1)"
    using process_files_fail_fast [OF assms(5) assms(6)] .
  have run: "main_service w = (?evs, Inr 1)"
    using assms(1-4) loop by (simp add: main_service_def)
  have quiet: "Submitted (name q) \<notin> set ?evs \<and> Written (name q) \<notin> set ?evs"
    if "name q \<notin> name ` set (done @ [p])" for q
  proof -
    have "\<exists>r \<in> set (done @ [p]). ev = Submitted (name r) \<or> ev = Written (name r)"
      if "ev \<in> set ?evs" for ev
      using that concat_events [of ev w processor "done"] process_file_events [of w processor p]
      by auto
    then show ?thesis using that by blast
  qed
  show ?thesis using loop run quiet by simp
qed

theorem batch_fail_fast_witness:
  "main_service world_batch =
     ([Submitted ''a.pdf'', Written ''a.pdf'', Submitted ''b.png''], Inr 1)
   \<and> Submitted ''c.pdf'' \<notin> set (fst (main_service world_batch))
   \<and> Written ''c.pdf'' \<notin> set (fst (main_service world_batch))"
proof -
  let ?pr = "(JStr ''demo'', ''us'', ''abc123'')"
  let ?a = "Path ''input'' ''a.pdf''"
  let ?b = "Path ''input'' ''b.png''"
  let ?c = "Path ''input'' ''c.pdf''"
  have h1: "resolve_config world_batch = Inr ?pr"
    by (simp add: resolve_config_def validate_credentials_def load_project_id_def
        load_processor_id_def get_location_def world_batch_def quiet_world_def
        strip_def isspace_def)
  have h2: "client_init world_batch = None"
    by (simp add: world_batch_def quiet_world_def)
  have h3: "input_dir world_batch =
      Some [(''a.pdf'', True), (''notes.txt'', True), (''b.png'', True),
            (''old.pdf'', False), (''c.pdf'', True)]"
    by (simp add: world_batch_def quiet_world_def)
  have h4: "supported_files [(''a.pdf'', True), (''notes.txt'', True), (''b.png'', True),
                           (''old.pdf'', False), (''c.pdf'', True)] = [?a] @ ?b # [?c]"
    by (simp add: supported_files_def get_mime_type_service_def suffix_def lower_def
        lower_char_def lstrip_dot_def dict_get_def mime_map_def)
  have pa: "process_file world_batch ?pr ?a = ([Submitted ''a.pdf'', Written ''a.pdf''],
              Inr ''a_processed.json'')"
    by (simp add: process_file_def world_batch_def quiet_world_def stem_def)
  have pb: "process_file world_batch ?pr ?b =
              ([Submitted ''b.png''], Inl (OtherException ''quota exceeded''))"
    by (simp add: process_file_def world_batch_def quiet_world_def)
  have h5: "\<forall>q \<in> set [?a]. \<exists>out. snd (process_file world_batch ?pr q) = Inr out"
    using pa by simp
  have h6: "snd (process_file world_batch ?pr ?b) = Inl (OtherException ''quota exceeded'')"
    using pb by simp
  note t = batch_fail_fast [OF h1 h2 h3 h4 h5 h6]
  have fresh: "name ?c \<notin> name ` set ([?a] @ [?b])" by simp
  have "?c \<in> set [?c]" by simp
  with t fresh have "Submitted (name ?c) \<notin> set (fst (main_service world_batch))
               \<and> Written (name ?c) \<notin> set (fst (main_service world_batch))"
    by blast
  moreover have "main_service world_batch =
     ([Submitted ''a.pdf'', Written ''a.pdf'', Submitted ''b.png''], Inr 1)"
    using t pa pb by simp
  ultimately show ?thesis by simp
qed

end
